theory Spec2Isabelle
  imports Main "HOL-Library.AList"
begin

section \<open>Python values\<close>

text \<open>
  A Python \<open>str\<close> is a sequence of Unicode code points: \<open>len\<close> and slicing count code
  points, so a string is a list of code points (natural numbers), and \<open>u\<close> reads an ASCII
  literal of the source. Dictionary keys are the ASCII literals of the source, kept as
  Isabelle strings. A dictionary is an association list in insertion order: \<open>d[k] = v\<close>
  is \<open>AList.update\<close> (in place for a key that is there, appended otherwise) and
  \<open>d.get(k, default)\<close> is \<open>dict_get\<close>. Floating-point values are not modelled.
\<close>

type_synonym pystr = "nat list"

definition u :: "string \<Rightarrow> pystr" where
  "u s = map of_char s"

datatype pyval =
    PyNone
  | PyBool bool
  | PyInt int
  | PyStr pystr
  | PyList "pyval list"
  | PyDict "(string \<times> pyval) list"

type_synonym dict = "(string \<times> pyval) list"

text \<open>
  Exceptions of class \<open>Exception\<close>, each with its \<open>str(e)\<close>. \<open>HTTPError\<close> stands for
  \<open>httpx.HTTPError\<close> and its subclasses (transport errors, timeouts, and the status
  error that \<open>raise_for_status\<close> raises on a non-2xx reply); \<open>Exception\<close> for every other
  class. What \<open>except Exception\<close> does not catch (cancellation of the task, interpreter
  exit) is not modelled.
\<close>

datatype exn =
    HTTPError pystr
  | TypeError pystr
  | KeyError pystr
  | AttributeError pystr
  | Exception pystr

fun str_exn :: "exn \<Rightarrow> pystr" where
  "str_exn (HTTPError m) = m"
| "str_exn (TypeError m) = m"
| "str_exn (KeyError m) = m"
| "str_exn (AttributeError m) = m"
| "str_exn (Exception m) = m"

fun truthy :: "pyval \<Rightarrow> bool" where
  "truthy PyNone = False"
| "truthy (PyBool b) = b"
| "truthy (PyInt i) = (i \<noteq> 0)"
| "truthy (PyStr s) = (s \<noteq> [])"
| "truthy (PyList xs) = (xs \<noteq> [])"
| "truthy (PyDict d) = (d \<noteq> [])"

definition dict_get :: "dict \<Rightarrow> string \<Rightarrow> pyval \<Rightarrow> pyval" where
  "dict_get d k dflt = (case map_of d k of None \<Rightarrow> dflt | Some v \<Rightarrow> v)"

fun type_name :: "pyval \<Rightarrow> string" where
  "type_name PyNone = ''NoneType''"
| "type_name (PyBool b) = ''bool''"
| "type_name (PyInt i) = ''int''"
| "type_name (PyStr s) = ''str''"
| "type_name (PyList xs) = ''list''"
| "type_name (PyDict d) = ''dict''"

definition quoted :: "string \<Rightarrow> pystr" where
  "quoted s = [39] @ u s @ [39]"

definition not_supported :: "string \<Rightarrow> pyval \<Rightarrow> exn" where
  "not_supported opr v =
     TypeError (quoted opr @ u '' not supported between instances of ''
                @ quoted (type_name v) @ u '' and '' @ quoted ''int'')"

text \<open>\<open>v >= n\<close> and \<open>v <= n\<close> against an integer literal: a bool counts as 0 or 1, and
  \<open>None\<close>, a string, a list or a dict raise \<open>TypeError\<close>.\<close>

fun py_ge :: "pyval \<Rightarrow> int \<Rightarrow> exn + bool" where
  "py_ge (PyInt i) n = Inr (i \<ge> n)"
| "py_ge (PyBool b) n = Inr ((if b then 1 else 0) \<ge> n)"
| "py_ge v n = Inl (not_supported ''>='' v)"

fun py_le :: "pyval \<Rightarrow> int \<Rightarrow> exn + bool" where
  "py_le (PyInt i) n = Inr (i \<le> n)"
| "py_le (PyBool b) n = Inr ((if b then 1 else 0) \<le> n)"
| "py_le v n = Inl (not_supported ''<='' v)"

definition try_bind :: "exn + 'a \<Rightarrow> ('a \<Rightarrow> exn + 'b) \<Rightarrow> exn + 'b" where
  "try_bind m f = (case m of Inl e \<Rightarrow> Inl e | Inr v \<Rightarrow> f v)"

section \<open>FinetuneChain (finetune_chain.py)\<close>

text \<open>
  The object: the reachability flag cached by the health probe of the constructor, the
  flag of the services, and the two injected services by the one method the chain calls on
  each: \<open>prompt_engineer.generate_conversion_prompts(user_profile, context,
  negative_preferences)\<close>, a dict of prompts by style, and
  \<open>openai_service._convert_single_style(input_text, prompt)\<close>. Either may raise.
\<close>

record finetune_chain =
  is_inference_server_available :: bool
  services_available :: bool
  prompt_engineer :: "dict \<Rightarrow> pystr \<Rightarrow> pyval \<Rightarrow> exn + (string \<times> pystr) list"
  openai_service :: "pystr \<Rightarrow> pystr \<Rightarrow> exn + pystr"

text \<open>
  What lies outside the process: \<open>post_generate prompt max_new_tokens\<close> is the exchange of
  \<open>_generate_with_lora\<close> up to \<open>result["result"]\<close> (the POST to \<open>/generate\<close> with
  temperature 0.7 and sampling on, \<open>raise_for_status\<close>, the JSON body, its \<open>result\<close>
  entry): the generated string, or the exception raised on the way. \<open>now_isoformat\<close> is
  \<open>datetime.now().isoformat()\<close>.
\<close>

record world =
  post_generate :: "pystr \<Rightarrow> int \<Rightarrow> exn + pystr"
  now_isoformat :: pystr

text \<open>\<open>_should_use_lora\<close>, lines 84-102.\<close>

definition should_use_lora :: "dict \<Rightarrow> pystr \<Rightarrow> exn + bool" where
  "should_use_lora user_profile ctx =
     (if truthy (dict_get user_profile ''formal_document_mode'' (PyBool False)) then Inr True
      else
        let formality_level =
              dict_get user_profile ''sessionFormalityLevel''
                (dict_get user_profile ''baseFormalityLevel'' (PyInt 3))
        in try_bind (py_ge formality_level 5) (\<lambda>ge5.
             if ge5 then Inr True
             else try_bind (py_ge formality_level 4) (\<lambda>ge4.
               if ge4 \<and> ctx \<in> set [u ''business'', u ''report''] then Inr True
               else Inr False)))"

text \<open>\<open>_generate_with_lora\<close>, lines 104-131: both handlers return the input text.\<close>

definition generate_with_lora :: "finetune_chain \<Rightarrow> world \<Rightarrow> pystr \<Rightarrow> int \<Rightarrow> exn + pystr" where
  "generate_with_lora self w input_text max_tokens =
     (if \<not> is_inference_server_available self
      then Inl (Exception (u ''Cannot connect to RunPod inference server.''))
      else case post_generate w input_text max_tokens of
             Inr result \<Rightarrow> Inr result
           | Inl (HTTPError m) \<Rightarrow> Inr input_text
           | Inl e \<Rightarrow> Inr input_text)"

text \<open>The f-string of \<open>_refine_with_gpt\<close>, lines 159-176 (10 is the newline, 12304 and
  12305 the lenticular brackets).\<close>

definition refinement_prompt :: "pystr \<Rightarrow> pystr \<Rightarrow> pystr \<Rightarrow> pystr" where
  "refinement_prompt original_text lora_output task =
     [10] @ u ''This is a formal document conversion task.'' @ [10, 10]
     @ [12304] @ u ''Original Text'' @ [12305, 10]
     @ original_text @ [10, 10]
     @ [12304] @ u ''Primary LoRA Conversion Result'' @ [12305] @ u ''  '' @ [10]
     @ lora_output @ [10, 10]
     @ [12304] @ u ''Task Instructions'' @ [12305, 10]
     @ task @ [10, 10]
     @ u ''Please refine the primary conversion result into a more natural and polished formal document while maintaining the original intent, referencing both the original text and primary conversion result.''
     @ [10, 10]
     @ u ''- Preserve the core meaning and context of the original text'' @ [10]
     @ u ''- Maintain the formal tone of the primary conversion but improve unnatural parts'' @ [10]
     @ u ''- Supplement any missing information by referencing the original'' @ [10]"

definition prompts_get :: "(string \<times> pystr) list \<Rightarrow> string \<Rightarrow> pystr \<Rightarrow> pystr" where
  "prompts_get prompts k dflt = (case map_of prompts k of None \<Rightarrow> dflt | Some v \<Rightarrow> v)"

text \<open>The \<open>try\<close> block of \<open>_refine_with_gpt\<close>, lines 139-184.\<close>

definition refine_body :: "finetune_chain \<Rightarrow> pystr \<Rightarrow> pystr \<Rightarrow> dict \<Rightarrow> pystr \<Rightarrow> exn + pystr" where
  "refine_body self lora_output original_text user_profile ctx =
     (let negative_preferences = dict_get user_profile ''negativePreferences'' (PyDict [])
      in try_bind (prompt_engineer self user_profile ctx negative_preferences) (\<lambda>prompts.
           let directness_level =
                 dict_get user_profile ''sessionDirectnessLevel''
                   (dict_get user_profile ''baseDirectnessLevel'' (PyInt 3))
           in try_bind (py_ge directness_level 4) (\<lambda>ge4.
                try_bind (if ge4 then Inr ''direct''
                          else try_bind (py_le directness_level 2) (\<lambda>le2.
                                 Inr (if le2 then ''gentle'' else ''neutral''))) (\<lambda>style_key.
                  openai_service self lora_output
                    (refinement_prompt original_text lora_output
                       (prompts_get prompts style_key (prompts_get prompts ''neutral'' [])))))))"

text \<open>\<open>_refine_with_gpt\<close>, lines 133-188: every exception of the block gives back the
  primary output.\<close>

definition refine_with_gpt :: "finetune_chain \<Rightarrow> pystr \<Rightarrow> pystr \<Rightarrow> dict \<Rightarrow> pystr \<Rightarrow> exn + pystr" where
  "refine_with_gpt self lora_output original_text user_profile ctx =
     (if \<not> services_available self then Inr lora_output
      else case refine_body self lora_output original_text user_profile ctx of
             Inr refined_result \<Rightarrow> Inr refined_result
           | Inl e \<Rightarrow> Inr lora_output)"

text \<open>The routing decision of \<open>convert_to_formal\<close>, lines 205-213: \<open>should_convert\<close> and
  \<open>conversion_reason\<close>. \<open>_should_use_lora\<close> is called outside the \<open>try\<close>, so what it raises
  leaves \<open>convert_to_formal\<close>.\<close>

definition decide :: "dict \<Rightarrow> pystr \<Rightarrow> bool \<Rightarrow> exn + (bool \<times> string)" where
  "decide user_profile ctx force_convert =
     (if force_convert then Inr (True, ''user_explicit_request'')
      else try_bind (should_use_lora user_profile ctx) (\<lambda>should_convert.
             Inr (should_convert,
                  if should_convert then ''auto_condition'' else ''condition_not_met'')))"

text \<open>The primary stage, lines 227-234: \<open>lora_output\<close> and \<open>method\<close>.\<close>

definition primary_stage :: "finetune_chain \<Rightarrow> world \<Rightarrow> pystr \<Rightarrow> exn + (pystr \<times> string)" where
  "primary_stage self w input_text =
     (if is_inference_server_available self
      then try_bind (generate_with_lora self w input_text 256) (\<lambda>lora_output.
             Inr (lora_output, ''lora_gpt''))
      else Inr (input_text, ''gpt_only''))"

text \<open>The \<open>try\<close> block of \<open>convert_to_formal\<close>, lines 226-252.\<close>

definition convert_body ::
  "finetune_chain \<Rightarrow> world \<Rightarrow> pystr \<Rightarrow> dict \<Rightarrow> pystr \<Rightarrow> bool \<Rightarrow> string \<Rightarrow> exn + dict" where
  "convert_body self w input_text user_profile ctx force_convert conversion_reason =
     try_bind (primary_stage self w input_text) (\<lambda>(lora_output, method).
       try_bind (refine_with_gpt self lora_output input_text user_profile ctx) (\<lambda>final_output.
         Inr [(''success'', PyBool True),
              (''converted_text'', PyStr final_output),
              (''lora_output'',
                 if is_inference_server_available self then PyStr lora_output else PyNone),
              (''method'', PyStr (u method)),
              (''reason'', PyStr (u conversion_reason)),
              (''forced'', PyBool force_convert),
              (''timestamp'', PyStr (now_isoformat w))]))"

text \<open>The dictionary of the \<open>except\<close> branch of \<open>convert_to_formal\<close>, lines 254-262.\<close>

definition conversion_error :: "exn \<Rightarrow> string \<Rightarrow> dict" where
  "conversion_error e conversion_reason =
     [(''success'', PyBool False),
      (''error'', PyStr (u ''Error occurred during conversion: '' @ str_exn e)),
      (''converted_text'', PyStr []),
      (''method'', PyStr (u ''error'')),
      (''reason'', PyStr (u conversion_reason))]"

text \<open>\<open>convert_to_formal\<close>, lines 190-262.\<close>

definition convert_to_formal ::
  "finetune_chain \<Rightarrow> world \<Rightarrow> pystr \<Rightarrow> dict \<Rightarrow> pystr \<Rightarrow> bool \<Rightarrow> exn + dict" where
  "convert_to_formal self w input_text user_profile ctx force_convert =
     try_bind (decide user_profile ctx force_convert) (\<lambda>(should_convert, conversion_reason).
       if \<not> should_convert
       then Inr [(''success'', PyBool False),
                 (''error'', PyStr (u ''Does not meet formal document conversion conditions.'')),
                 (''converted_text'', PyStr []),
                 (''method'', PyStr (u ''none'')),
                 (''reason'', PyStr (u conversion_reason))]
       else case convert_body self w input_text user_profile ctx force_convert conversion_reason of
              Inr r \<Rightarrow> Inr r
            | Inl e \<Rightarrow> Inr (conversion_error e conversion_reason))"

section \<open>RAGChain (rag_chain.py)\<close>

text \<open>
  A retrieved document: \<open>page_content\<close> and the \<open>source\<close> entry of its metadata when
  the key is there (a string, as the loaders write it). The vector store is the search it
  answers, by query and \<open>k\<close>; \<open>as_retriever(search_kwargs={"k": k})\<close> fixes \<open>k\<close>, and
  \<open>get_relevant_documents\<close> is the application of the retriever to the query.
\<close>

record document =
  page_content :: pystr
  source :: "pystr option"

type_synonym vectorstore = "pystr \<Rightarrow> nat \<Rightarrow> exn + document list"

type_synonym retriever = "pystr \<Rightarrow> exn + document list"


text \<open>
  The service objects of \<open>_services_cache\<close>, each by the methods the chain calls:
  \<open>ConversionService\<close> with \<open>convert_text(input_text, user_profile, context)\<close> and
  \<open>process_user_feedback(feedback_text, user_profile)\<close>, \<open>UserPreferencesService\<close> with
  \<open>adapt_user_style(user_id, feedback_text, rating, selected_version)\<close>. A method
  returns a value or raises.
\<close>

datatype service =
    ConversionService "pystr \<Rightarrow> dict \<Rightarrow> pystr \<Rightarrow> exn + pyval" "pystr \<Rightarrow> dict \<Rightarrow> exn + pyval"
  | UserPreferencesService "pyval \<Rightarrow> pystr \<Rightarrow> int \<Rightarrow> pystr \<Rightarrow> exn + bool"

datatype call =
    ConvertText pystr dict pystr
  | ProcessUserFeedback pystr dict
  | AdaptUserStyle pyval pystr int pystr

text \<open>
  The object. \<open>calls\<close> is a ghost field: the calls made on the services so far, oldest
  first.
\<close>

record rag_chain =
  services_available_rag :: bool
  services_cache :: "(string \<times> service) list"
  vectorstore :: "vectorstore option"
  retriever :: "retriever option"
  is_initialized :: bool
  calls :: "call list"

text \<open>
  What lies outside the object: the outcome of importing and constructing each service
  class, of \<open>load_vector_store(FAISS_INDEX_PATH)\<close> (a store, \<open>None\<close>, or an exception),
  and the clock.
\<close>

record modules =
  new_conversion_service :: "exn + service"
  new_user_preferences_service :: "exn + service"
  load_vector_store :: "exn + vectorstore option"
  isoformat_now :: pystr

text \<open>\<open>_get_service\<close>, lines 104-128 (\<open>services_available_rag\<close> is the attribute
  \<open>services_available\<close> of the RAG chain).\<close>

definition get_service :: "rag_chain \<Rightarrow> modules \<Rightarrow> string \<Rightarrow> service option \<times> rag_chain" where
  "get_service self env service_name =
     (case map_of (services_cache self) service_name of
        Some service \<Rightarrow> (Some service, self)
      | None \<Rightarrow>
          if \<not> services_available_rag self then (None, self)
          else
            (case (if service_name = ''conversion_service''
                   then Some (new_conversion_service env)
                   else if service_name = ''user_preferences_service''
                   then Some (new_user_preferences_service env)
                   else None) of
               None \<Rightarrow> (None, self)
             | Some (Inl e) \<Rightarrow> (None, self)
             | Some (Inr service) \<Rightarrow>
                 (Some service,
                  self\<lparr>services_cache := AList.update service_name service (services_cache self)\<rparr>)))"


text \<open>Method calls on a cached service: the outcome and the call made. A service of the
  other class has no such method.\<close>

definition no_attribute :: "string \<Rightarrow> string \<Rightarrow> exn" where
  "no_attribute cls attr =
     AttributeError (quoted cls @ u '' object has no attribute '' @ quoted attr)"


fun call_process_user_feedback ::
  "service \<Rightarrow> pystr \<Rightarrow> dict \<Rightarrow> (exn + pyval) \<times> call list" where
  "call_process_user_feedback (ConversionService convert_text feedback) feedback_text user_profile =
     (feedback feedback_text user_profile, [ProcessUserFeedback feedback_text user_profile])"
| "call_process_user_feedback (UserPreferencesService adapt) feedback_text user_profile =
     (Inl (no_attribute ''UserPreferencesService'' ''process_user_feedback''), [])"

fun call_adapt_user_style ::
  "service \<Rightarrow> pyval \<Rightarrow> pystr \<Rightarrow> int \<Rightarrow> pystr \<Rightarrow> (exn + bool) \<times> call list" where
  "call_adapt_user_style (UserPreferencesService adapt) user_id feedback_text rating selected_version =
     (adapt user_id feedback_text rating selected_version,
      [AdaptUserStyle user_id feedback_text rating selected_version])"
| "call_adapt_user_style (ConversionService convert_text feedback) user_id feedback_text rating selected_version =
     (Inl (no_attribute ''ConversionService'' ''adapt_user_style''), [])"

subsection \<open>ask_with_styles\<close>









text \<open>Lines 259-266: \<open>result.get("success")\<close> and the four item assignments, on whatever
  the conversion service returned.\<close>

fun item_assignment_error :: "pyval \<Rightarrow> exn" where
  "item_assignment_error (PyList xs) =
     TypeError (u ''list indices must be integers or slices, not str'')"
| "item_assignment_error v =
     TypeError (quoted (type_name v) @ u '' object does not support item assignment'')"




subsection \<open>process_user_feedback\<close>

text \<open>Lines 281-300: the attempt at advanced processing. \<open>Some\<close> is the dictionary the
  function returns at once, \<open>None\<close> is falling through to the basic processing.\<close>

definition advanced_processing ::
  "rag_chain \<Rightarrow> modules \<Rightarrow> pystr \<Rightarrow> dict \<Rightarrow> int option \<Rightarrow> pystr
     \<Rightarrow> (exn + dict option) \<times> rag_chain" where
  "advanced_processing self env feedback_text user_profile rating selected_version =
     (case rating of
        None \<Rightarrow> (Inr None, self)
      | Some rating_value \<Rightarrow>
          let (user_preferences_service, self1) = get_service self env ''user_preferences_service''
          in (case user_preferences_service of
               None \<Rightarrow> (Inr None, self1)
             | Some service \<Rightarrow>
                 let user_id = dict_get user_profile ''userId'' (PyStr (u ''unknown''));
                     (outcome, made) =
                       call_adapt_user_style service user_id feedback_text rating_value
                         selected_version;
                     self2 = self1\<lparr>calls := calls self1 @ made\<rparr>
                 in (try_bind outcome (\<lambda>success.
                       if success
                       then Inr (Some [(''success'', PyBool True),
                                       (''updated_profile'', PyDict user_profile),
                                       (''style_adjustments'',
                                          PyDict [(''advanced_learning'', PyBool True)]),
                                       (''feedback_processed'', PyStr feedback_text),
                                       (''processing_method'',
                                          PyStr (u ''user_preferences_service''))])
                       else Inr None),
                     self2)))"

text \<open>Lines 302-318: the basic processing.\<close>

definition basic_processing ::
  "rag_chain \<Rightarrow> modules \<Rightarrow> pystr \<Rightarrow> dict \<Rightarrow> (exn + dict) \<times> rag_chain" where
  "basic_processing self env feedback_text user_profile =
     (let (conversion_service, self1) = get_service self env ''conversion_service''
      in case conversion_service of
           None \<Rightarrow>
             (Inr [(''success'', PyBool False),
                   (''error'', PyStr (u ''Feedback processing service is not initialized.'')),
                   (''updated_profile'', PyDict user_profile),
                   (''processing_method'', PyStr (u ''none''))],
              self1)
         | Some service \<Rightarrow>
             let (outcome, made) = call_process_user_feedback service feedback_text user_profile;
                 self2 = self1\<lparr>calls := calls self1 @ made\<rparr>
             in (try_bind outcome (\<lambda>result.
                   (case result of
                      PyDict r \<Rightarrow>
                        Inr (AList.update ''processing_method'' (PyStr (u ''conversion_service'')) r)
                    | v \<Rightarrow> Inl (item_assignment_error v))),
                 self2))"

text \<open>The \<open>try\<close> block of \<open>process_user_feedback\<close>, lines 280-318.\<close>

definition process_user_feedback_body ::
  "rag_chain \<Rightarrow> modules \<Rightarrow> pystr \<Rightarrow> dict \<Rightarrow> int option \<Rightarrow> pystr \<Rightarrow> (exn + dict) \<times> rag_chain" where
  "process_user_feedback_body self env feedback_text user_profile rating selected_version =
     (case advanced_processing self env feedback_text user_profile rating selected_version of
        (Inl e, self1) \<Rightarrow> (Inl e, self1)
      | (Inr (Some returned), self1) \<Rightarrow> (Inr returned, self1)
      | (Inr None, self1) \<Rightarrow> basic_processing self1 env feedback_text user_profile)"

text \<open>The dictionary of the \<open>except\<close> branch, lines 320-327.\<close>

definition feedback_error :: "exn \<Rightarrow> dict \<Rightarrow> dict" where
  "feedback_error e user_profile =
     [(''success'', PyBool False),
      (''error'', PyStr (str_exn e)),
      (''updated_profile'', PyDict user_profile),
      (''processing_method'', PyStr (u ''error''))]"

text \<open>\<open>process_user_feedback\<close>, lines 273-327.\<close>

definition process_user_feedback ::
  "rag_chain \<Rightarrow> modules \<Rightarrow> pystr \<Rightarrow> dict \<Rightarrow> int option \<Rightarrow> pystr \<Rightarrow> (exn + dict) \<times> rag_chain" where
  "process_user_feedback self env feedback_text user_profile rating selected_version =
     (case process_user_feedback_body self env feedback_text user_profile rating selected_version of
        (Inr result, self1) \<Rightarrow> (Inr result, self1)
      | (Inl e, self1) \<Rightarrow> (Inr (feedback_error e user_profile), self1))"

section \<open>The routing rule as the specification words it\<close>

text \<open>
  The profile as the specification sees it: the formal-document switch, the session
  formality when present, the base formality when present. \<open>decide_reference\<close> follows
  the sentences of the specification; \<open>profile_view\<close> reads such a profile off a
  dictionary whose two formality entries, when present, are integers, and is \<open>None\<close> on
  any other dictionary.
\<close>

record style_profile =
  formalDocumentMode :: bool
  sessionFormality :: "int option"
  baseFormality :: "int option"

definition decide_reference :: "style_profile \<Rightarrow> pystr \<Rightarrow> bool" where
  "decide_reference sp ctx =
     (if formalDocumentMode sp then True
      else
        let formality = (case sessionFormality sp of Some f \<Rightarrow> f
                         | None \<Rightarrow> (case baseFormality sp of Some f \<Rightarrow> f | None \<Rightarrow> 3))
        in if formality \<ge> 5 then True
           else if formality \<ge> 4 \<and> (ctx = u ''business'' \<or> ctx = u ''report'') then True
           else False)"

fun as_int :: "pyval option \<Rightarrow> int option option" where
  "as_int None = Some None"
| "as_int (Some (PyInt i)) = Some (Some i)"
| "as_int (Some v) = None"

definition profile_view :: "dict \<Rightarrow> style_profile option" where
  "profile_view p =
     (case (as_int (map_of p ''sessionFormalityLevel''), as_int (map_of p ''baseFormalityLevel'')) of
        (Some s, Some b) \<Rightarrow>
          Some \<lparr>formalDocumentMode = truthy (dict_get p ''formal_document_mode'' (PyBool False)),
                sessionFormality = s, baseFormality = b\<rparr>
      | _ \<Rightarrow> None)"

section \<open>Example objects\<close>

text \<open>Concrete collaborators for the closed instances below: an endpoint that always
  times out, a prompt service with no prompts, a generation service that always raises.\<close>

definition always_timeout :: "pystr \<Rightarrow> int \<Rightarrow> exn + pystr" where
  "always_timeout prompt max_new_tokens = Inl (HTTPError (u ''timed out''))"

definition no_prompts :: "dict \<Rightarrow> pystr \<Rightarrow> pyval \<Rightarrow> exn + (string \<times> pystr) list" where
  "no_prompts user_profile ctx negative_preferences = Inr []"

definition rate_limited :: "pystr \<Rightarrow> pystr \<Rightarrow> exn + pystr" where
  "rate_limited input_text prompt = Inl (Exception (u ''rate limit''))"

definition example_chain :: "bool \<Rightarrow> bool \<Rightarrow> finetune_chain" where
  "example_chain reachable services =
     \<lparr>is_inference_server_available = reachable, services_available = services,
      prompt_engineer = no_prompts, openai_service = rate_limited\<rparr>"

definition timeout_world :: world where
  "timeout_world = \<lparr>post_generate = always_timeout, now_isoformat = u ''2025-01-01T09:00:00''\<rparr>"



definition empty_store :: vectorstore where
  "empty_store question k = Inr []"



definition styled_answer :: "pystr \<Rightarrow> dict \<Rightarrow> pystr \<Rightarrow> exn + pyval" where
  "styled_answer input_text user_profile ctx =
     Inr (PyDict [(''success'', PyBool True),
                  (''converted_texts'',
                     PyDict [(''direct'', PyStr (u ''Yes.'')), (''gentle'', PyStr (u ''Yes, it is.'')),
                             (''neutral'', PyStr (u ''It is.''))]),
                  (''metadata'', PyDict [])])"

definition basic_feedback :: "pystr \<Rightarrow> dict \<Rightarrow> exn + pyval" where
  "basic_feedback feedback_text user_profile =
     Inr (PyDict [(''success'', PyBool True), (''updated_profile'', PyDict user_profile)])"

definition adapt_reports :: "bool \<Rightarrow> pyval \<Rightarrow> pystr \<Rightarrow> int \<Rightarrow> pystr \<Rightarrow> exn + bool" where
  "adapt_reports outcome user_id feedback_text rating selected_version = Inr outcome"

definition adapt_raises :: "pyval \<Rightarrow> pystr \<Rightarrow> int \<Rightarrow> pystr \<Rightarrow> exn + bool" where
  "adapt_raises user_id feedback_text rating selected_version =
     Inl (Exception (u ''database is locked''))"

definition example_rag :: "(string \<times> service) list \<Rightarrow> rag_chain" where
  "example_rag cache =
     \<lparr>services_available_rag = False, services_cache = cache, vectorstore = None, retriever = None,
      is_initialized = False, calls = []\<rparr>"

definition example_modules :: "vectorstore \<Rightarrow> modules" where
  "example_modules store =
     \<lparr>new_conversion_service = Inr (ConversionService styled_answer basic_feedback),
      new_user_preferences_service = Inr (UserPreferencesService (adapt_reports True)),
      load_vector_store = Inr (Some store),
      isoformat_now = u ''2025-01-01T09:00:00''\<rparr>"

section \<open>The routing decision and the two-stage pipeline\<close>

lemma try_bind_Inr [simp]: "try_bind (Inr v) f = f v"
  by (simp add: try_bind_def)

lemma try_bind_Inl [simp]: "try_bind (Inl e) f = Inl e"
  by (simp add: try_bind_def)

lemma as_int_Some_cases:
  "as_int x = Some y \<Longrightarrow> (x = None \<and> y = None) \<or> (\<exists>i. x = Some (PyInt i) \<and> y = Some i)"
  by (cases x rule: as_int.cases) auto

lemma should_use_lora_reference:
  assumes "profile_view p = Some sp"
  shows "should_use_lora p c = Inr (decide_reference sp c)"
proof -
  from assms obtain s b where
    s: "as_int (map_of p ''sessionFormalityLevel'') = Some s" and
    b: "as_int (map_of p ''baseFormalityLevel'') = Some b" and
    sp: "sp = \<lparr>formalDocumentMode = truthy (dict_get p ''formal_document_mode'' (PyBool False)),
                sessionFormality = s, baseFormality = b\<rparr>"
    by (auto simp: profile_view_def split: option.splits)
  from as_int_Some_cases[OF s] as_int_Some_cases[OF b] show ?thesis
    by (auto simp: sp should_use_lora_def decide_reference_def dict_get_def Let_def)
qed

lemma should_use_lora_empty: "should_use_lora [] c = Inr False"
  by (simp add: should_use_lora_def dict_get_def)

text \<open>
  Outside the integer-valued profiles the comparison raises: here a profile with the
  session entry present and \<open>None\<close>.
\<close>

lemma should_use_lora_none_session:
  "should_use_lora [(''sessionFormalityLevel'', PyNone), (''baseFormalityLevel'', PyInt 5)] c
     = Inl (not_supported ''>='' PyNone)"
  by (simp add: should_use_lora_def dict_get_def)

text \<open>
  Claim C1, as amended. For every profile whose formality entries, when present, are
  integers, and every context, \<open>_should_use_lora\<close> returns what the reference rule gives
  (formal-document switch set: escalate; else formality = session, else base, else 3;
  escalate at 5 or more, or at 4 or more in a business or report context), and the
  decision of \<open>convert_to_formal\<close> without \<open>force_convert\<close> is that value with reason
  \<open>auto_condition\<close> or \<open>condition_not_met\<close>. With base formality 4, no session override
  and the formal-document switch not set, it escalates exactly in the contexts
  business and report. The empty profile never escalates.
\<close>

theorem C1_routing_reference:
  assumes "profile_view p = Some sp"
  shows "should_use_lora p c = Inr (decide_reference sp c)
       \<and> decide p c False =
           Inr (decide_reference sp c,
                if decide_reference sp c then ''auto_condition'' else ''condition_not_met'')
       \<and> (\<not> formalDocumentMode sp \<and> sessionFormality sp = None \<and> baseFormality sp = Some 4
            \<longrightarrow> should_use_lora p c = Inr (c = u ''business'' \<or> c = u ''report''))
       \<and> should_use_lora [] c = Inr False"
  using should_use_lora_reference[OF assms, of c] should_use_lora_empty[of c]
  by (auto simp: decide_def decide_reference_def)

text \<open>The profile \<open>{"baseFormalityLevel": 4}\<close> in a business and in a personal context.\<close>

theorem C1_routing_reference_witness:
  "profile_view [(''baseFormalityLevel'', PyInt 4)]
     = Some \<lparr>formalDocumentMode = False, sessionFormality = None, baseFormality = Some 4\<rparr>
   \<and> should_use_lora [(''baseFormalityLevel'', PyInt 4)] (u ''business'') = Inr True
   \<and> should_use_lora [(''baseFormalityLevel'', PyInt 4)] (u ''personal'') = Inr False"
proof -
  have v: "profile_view [(''baseFormalityLevel'', PyInt 4)]
     = Some \<lparr>formalDocumentMode = False, sessionFormality = None, baseFormality = Some 4\<rparr>"
    by (simp add: profile_view_def dict_get_def)
  show ?thesis
    using v C1_routing_reference[OF v, of "u ''business''"] C1_routing_reference[OF v, of "u ''personal''"]
    by (simp add: u_def decide_reference_def)
qed

text \<open>
  Claim C1 as written fails: a profile with base formality 4, no session override and
  \<open>formal_document_mode\<close> set escalates in the context personal, which is neither
  business nor report.
\<close>

theorem C1_base4_formal_mode_counterexample:
  "profile_view [(''baseFormalityLevel'', PyInt 4), (''formal_document_mode'', PyBool True)]
     = Some \<lparr>formalDocumentMode = True, sessionFormality = None, baseFormality = Some 4\<rparr>
   \<and> should_use_lora [(''baseFormalityLevel'', PyInt 4), (''formal_document_mode'', PyBool True)]
        (u ''personal'') = Inr True
   \<and> u ''personal'' \<noteq> u ''business'' \<and> u ''personal'' \<noteq> u ''report''"
  by (simp add: profile_view_def dict_get_def should_use_lora_def u_def)

lemma generate_with_lora_available:
  "is_inference_server_available self \<Longrightarrow>
   generate_with_lora self w t n =
     Inr (case post_generate w t n of Inr result \<Rightarrow> result | Inl e \<Rightarrow> t)"
  by (simp add: generate_with_lora_def split: sum.splits exn.splits)

lemma primary_stage_eq:
  "primary_stage self w t =
     Inr (if is_inference_server_available self
          then (case post_generate w t 256 of Inr result \<Rightarrow> result | Inl e \<Rightarrow> t, ''lora_gpt'')
          else (t, ''gpt_only''))"
  by (simp add: primary_stage_def generate_with_lora_available)

lemma refine_with_gpt_eq:
  "refine_with_gpt self lo t p c =
     Inr (if services_available self
          then (case refine_body self lo t p c of Inr refined \<Rightarrow> refined | Inl e \<Rightarrow> lo)
          else lo)"
  by (simp add: refine_with_gpt_def split: sum.splits)

lemma convert_body_eq:
  "convert_body self w t p c force reason =
     Inr [(''success'', PyBool True),
          (''converted_text'',
             PyStr (case refine_with_gpt self (fst (projr (primary_stage self w t))) t p c of Inr f \<Rightarrow> f | Inl e \<Rightarrow> [])),
          (''lora_output'',
             if is_inference_server_available self
             then PyStr (fst (projr (primary_stage self w t))) else PyNone),
          (''method'', PyStr (u (snd (projr (primary_stage self w t))))),
          (''reason'', PyStr (u reason)),
          (''forced'', PyBool force),
          (''timestamp'', PyStr (now_isoformat w))]"
  by (simp add: convert_body_def primary_stage_eq refine_with_gpt_eq split: sum.splits)

text \<open>
  Claim C2. With \<open>force_convert\<close> true the decision is to escalate with reason
  \<open>user_explicit_request\<close> whatever the profile and the context (also for a profile on
  which \<open>_should_use_lora\<close> would raise), and \<open>convert_to_formal\<close> returns a dictionary
  with that reason, \<open>success\<close> and \<open>forced\<close> true, and method \<open>lora_gpt\<close> or \<open>gpt_only\<close>,
  never \<open>none\<close>.
\<close>

theorem C2_force_convert:
  "decide p c True = Inr (True, ''user_explicit_request'')
   \<and> (\<exists>r. convert_to_formal self w t p c True = Inr r
        \<and> map_of r ''reason'' = Some (PyStr (u ''user_explicit_request''))
        \<and> map_of r ''success'' = Some (PyBool True)
        \<and> map_of r ''forced'' = Some (PyBool True)
        \<and> (map_of r ''method'' = Some (PyStr (u ''lora_gpt''))
             \<or> map_of r ''method'' = Some (PyStr (u ''gpt_only'')))
        \<and> map_of r ''method'' \<noteq> Some (PyStr (u ''none'')))"
  by (simp add: decide_def convert_to_formal_def convert_body_eq primary_stage_eq u_def)


lemma convert_to_formal_escalated:
  assumes "decide p c force = Inr (True, reason)"
  shows "convert_to_formal self w t p c force =
     Inr [(''success'', PyBool True),
          (''converted_text'',
             PyStr (case refine_with_gpt self (fst (projr (primary_stage self w t))) t p c of Inr f \<Rightarrow> f | Inl e \<Rightarrow> [])),
          (''lora_output'',
             if is_inference_server_available self
             then PyStr (fst (projr (primary_stage self w t))) else PyNone),
          (''method'', PyStr (u (snd (projr (primary_stage self w t))))),
          (''reason'', PyStr (u reason)),
          (''forced'', PyBool force),
          (''timestamp'', PyStr (now_isoformat w))]"
  using assms by (simp add: convert_to_formal_def convert_body_eq)

lemma convert_to_formal_success_escalated:
  assumes "convert_to_formal self w t p c force = Inr r"
      and "map_of r ''success'' = Some (PyBool True)"
  shows "\<exists>reason. decide p c force = Inr (True, reason)"
  using assms
  by (cases "decide p c force") (auto simp: convert_to_formal_def split: if_splits)

text \<open>
  Claim C3, as amended. In a successful result of \<open>convert_to_formal\<close> the method is
  \<open>lora_gpt\<close> when the cached reachability flag is set, whether the generation call then
  succeeded or failed, and \<open>gpt_only\<close> when it is not set; \<open>lora_output\<close> is the generated
  text, or the input text when the call failed, or \<open>None\<close> when the flag is not set.
\<close>

theorem C3_method_follows_cached_flag:
  assumes "convert_to_formal self w t p c force = Inr r"
      and "map_of r ''success'' = Some (PyBool True)"
  shows "map_of r ''method'' =
           Some (PyStr (u (if is_inference_server_available self then ''lora_gpt'' else ''gpt_only'')))
       \<and> map_of r ''lora_output'' =
           Some (if is_inference_server_available self
                 then PyStr (case post_generate w t 256 of Inr generated \<Rightarrow> generated | Inl e \<Rightarrow> t)
                 else PyNone)"
proof -
  from convert_to_formal_success_escalated[OF assms] obtain reason
    where "decide p c force = Inr (True, reason)" by blast
  from convert_to_formal_escalated[OF this, of self w t] assms(1) show ?thesis
    by (auto simp: primary_stage_eq)
qed

text \<open>A forced conversion with the flag not set.\<close>

theorem C3_method_follows_cached_flag_witness:
  "convert_to_formal (example_chain False False) timeout_world (u ''hi'') [] (u ''memo'') True
     = Inr [(''success'', PyBool True), (''converted_text'', PyStr (u ''hi'')),
            (''lora_output'', PyNone), (''method'', PyStr (u ''gpt_only'')),
            (''reason'', PyStr (u ''user_explicit_request'')), (''forced'', PyBool True),
            (''timestamp'', PyStr (u ''2025-01-01T09:00:00''))]
   \<and> map_of [(''success'', PyBool True), (''converted_text'', PyStr (u ''hi'')),
            (''lora_output'', PyNone), (''method'', PyStr (u ''gpt_only'')),
            (''reason'', PyStr (u ''user_explicit_request'')), (''forced'', PyBool True),
            (''timestamp'', PyStr (u ''2025-01-01T09:00:00''))] ''method''
       = Some (PyStr (u ''gpt_only''))"
proof -
  have run: "convert_to_formal (example_chain False False) timeout_world (u ''hi'') [] (u ''memo'') True
     = Inr [(''success'', PyBool True), (''converted_text'', PyStr (u ''hi'')),
            (''lora_output'', PyNone), (''method'', PyStr (u ''gpt_only'')),
            (''reason'', PyStr (u ''user_explicit_request'')), (''forced'', PyBool True),
            (''timestamp'', PyStr (u ''2025-01-01T09:00:00''))]"
    by (simp add: convert_to_formal_def decide_def convert_body_def primary_stage_def
        refine_with_gpt_def example_chain_def timeout_world_def)
  show ?thesis
    using run C3_method_follows_cached_flag[OF run] by (simp add: example_chain_def)
qed

text \<open>
  Claim C3 as written fails: with the flag set and a generation call that times out, the
  input text is substituted and the result is successful, with method \<open>lora_gpt\<close>, not
  \<open>gpt_only\<close>.
\<close>

theorem C3_failed_call_counterexample:
  "post_generate timeout_world (u ''hi'') 256 = Inl (HTTPError (u ''timed out''))
   \<and> convert_to_formal (example_chain True False) timeout_world (u ''hi'') [] (u ''memo'') True
     = Inr [(''success'', PyBool True), (''converted_text'', PyStr (u ''hi'')),
            (''lora_output'', PyStr (u ''hi'')), (''method'', PyStr (u ''lora_gpt'')),
            (''reason'', PyStr (u ''user_explicit_request'')), (''forced'', PyBool True),
            (''timestamp'', PyStr (u ''2025-01-01T09:00:00''))]
   \<and> u ''lora_gpt'' \<noteq> u ''gpt_only''"
  by (simp add: convert_to_formal_def decide_def convert_body_def primary_stage_def
      generate_with_lora_def refine_with_gpt_def example_chain_def timeout_world_def
      always_timeout_def u_def)

text \<open>
  On the escalated path \<open>convert_to_formal\<close> returns a dictionary with \<open>success\<close> true,
  whatever the generation call does; when the call is made and raises (a transport error,
  a timeout, a non-2xx status or anything else) the primary output is the input text.
\<close>

lemma escalated_path_returns_success:
  assumes "decide p c force = Inr (True, reason)"
  shows "\<exists>r. convert_to_formal self w t p c force = Inr r
            \<and> map_of r ''success'' = Some (PyBool True)
            \<and> (\<forall>e. is_inference_server_available self \<and> post_generate w t 256 = Inl e
                   \<longrightarrow> primary_stage self w t = Inr (t, ''lora_gpt'')
                       \<and> map_of r ''lora_output'' = Some (PyStr t))"
  using convert_to_formal_escalated[OF assms, of self w t]
  by (auto simp: primary_stage_eq)

text \<open>
  Claim C4. The claim is that \<open>convert_to_formal\<close> never raises, every exception ending in
  the result with method \<open>error\<close>. The code calls \<open>_should_use_lora\<close> at line 212, before
  the \<open>try\<close> of line 225: with \<open>force_convert\<close> false and a profile whose session entry
  is present and \<open>None\<close> (what a profile without session override gives when dumped
  with its empty fields), the comparison of line 95 raises \<open>TypeError\<close>, and the
  exception leaves \<open>convert_to_formal\<close>, for every chain, input text and context.
\<close>

theorem C4_decision_raises_before_try:
  "convert_to_formal self w t
     [(''sessionFormalityLevel'', PyNone), (''baseFormalityLevel'', PyInt 5)] c False
     = Inl (TypeError ([39] @ u ''>='' @ [39] @ u '' not supported between instances of ''
                       @ [39] @ u ''NoneType'' @ [39] @ u '' and '' @ [39] @ u ''int'' @ [39]))"
  by (simp add: convert_to_formal_def decide_def should_use_lora_none_session not_supported_def
      quoted_def)

text \<open>
  Claim C5. On the escalated path, when the services are not available or the
  refinement block raises, \<open>convert_to_formal\<close> returns \<open>success\<close> true with the primary
  output as \<open>converted_text\<close>.
\<close>

theorem C5_refinement_failure_keeps_primary:
  assumes "decide p c force = Inr (True, reason)"
      and "primary_stage self w t = Inr (lora_output, method)"
      and "\<not> services_available self \<or> (\<exists>e. refine_body self lora_output t p c = Inl e)"
  shows "\<exists>r. convert_to_formal self w t p c force = Inr r
           \<and> map_of r ''success'' = Some (PyBool True)
           \<and> map_of r ''converted_text'' = Some (PyStr lora_output)"
  using convert_to_formal_escalated[OF assms(1), of self w t] assms(2,3)
  by (auto simp: refine_with_gpt_eq)

text \<open>A forced conversion whose refinement call raises.\<close>

theorem C5_refinement_failure_keeps_primary_witness:
  "decide [] (u ''report'') True = Inr (True, ''user_explicit_request'')
   \<and> primary_stage (example_chain False True) timeout_world (u ''send it'') = Inr (u ''send it'', ''gpt_only'')
   \<and> services_available (example_chain False True)
   \<and> refine_body (example_chain False True) (u ''send it'') (u ''send it'') [] (u ''report'')
        = Inl (Exception (u ''rate limit''))
   \<and> (\<exists>r. convert_to_formal (example_chain False True) timeout_world (u ''send it'') [] (u ''report'') True = Inr r
          \<and> map_of r ''success'' = Some (PyBool True)
          \<and> map_of r ''converted_text'' = Some (PyStr (u ''send it'')))"
proof -
  have d: "decide [] (u ''report'') True = Inr (True, ''user_explicit_request'')"
    by (simp add: decide_def)
  have p: "primary_stage (example_chain False True) timeout_world (u ''send it'') = Inr (u ''send it'', ''gpt_only'')"
    by (simp add: primary_stage_def example_chain_def)
  have s: "services_available (example_chain False True)"
    by (simp add: example_chain_def)
  have r: "refine_body (example_chain False True) (u ''send it'') (u ''send it'') [] (u ''report'')
        = Inl (Exception (u ''rate limit''))"
    by (simp add: refine_body_def example_chain_def no_prompts_def rate_limited_def dict_get_def)
  have "\<not> services_available (example_chain False True)
        \<or> (\<exists>e. refine_body (example_chain False True) (u ''send it'') (u ''send it'') [] (u ''report'') = Inl e)"
    using r by blast
  from C5_refinement_failure_keeps_primary[OF d p this] d p s r show ?thesis by blast
qed

section \<open>The retrieval-augmented generator and the feedback router\<close>


lemma get_service_frame:
  assumes "get_service self env n = (svc, self1)"
  shows "calls self1 = calls self \<and> is_initialized self1 = is_initialized self
       \<and> retriever self1 = retriever self"
  using assms
  by (auto simp: get_service_def split: option.splits if_splits sum.splits)

lemma get_service_None:
  assumes "get_service self env n = (None, self1)"
  shows "self1 = self"
  using assms
  by (auto simp: get_service_def split: option.splits if_splits sum.splits)




lemma get_service_cached:
  "map_of (services_cache self) n = Some service \<Longrightarrow>
   get_service self env n = (Some service, self)"
  by (simp add: get_service_def)













lemma process_user_feedback_eq:
  "process_user_feedback self env ft p rating sv =
     (case process_user_feedback_body self env ft p rating sv of
        (Inr result, s) \<Rightarrow> (Inr result, s)
      | (Inl e, s) \<Rightarrow> (Inr (feedback_error e p), s))"
  by (simp add: process_user_feedback_def)

lemma advanced_processing_success:
  assumes "rating = Some rv"
      and "get_service self env ''user_preferences_service''
             = (Some (UserPreferencesService adapt), self1)"
      and "adapt (dict_get p ''userId'' (PyStr (u ''unknown''))) ft rv sv = Inr True"
  shows "advanced_processing self env ft p rating sv =
           (Inr (Some [(''success'', PyBool True),
                       (''updated_profile'', PyDict p),
                       (''style_adjustments'', PyDict [(''advanced_learning'', PyBool True)]),
                       (''feedback_processed'', PyStr ft),
                       (''processing_method'', PyStr (u ''user_preferences_service''))]),
            self1\<lparr>calls := calls self1 @
               [AdaptUserStyle (dict_get p ''userId'' (PyStr (u ''unknown''))) ft rv sv]\<rparr>)"
  using assms by (simp add: advanced_processing_def)

lemma advanced_processing_falls_through:
  "(\<exists>self1. advanced_processing self env ft p rating sv = (Inr None, self1)) \<longleftrightarrow>
     (rating = None
      \<or> (\<exists>rv. rating = Some rv
             \<and> (fst (get_service self env ''user_preferences_service'') = None
                  \<or> (\<exists>adapt. fst (get_service self env ''user_preferences_service'')
                                 = Some (UserPreferencesService adapt)
                         \<and> adapt (dict_get p ''userId'' (PyStr (u ''unknown''))) ft rv sv
                             = Inr False))))"
proof (cases rating)
  case None
  then show ?thesis by (simp add: advanced_processing_def)
next
  case (Some rv)
  obtain svc s where g: "get_service self env ''user_preferences_service'' = (svc, s)"
    by (cases "get_service self env ''user_preferences_service''")
  show ?thesis
  proof (cases svc)
    case None
    with Some g show ?thesis by (simp add: advanced_processing_def)
  next
    case (Some service)
    show ?thesis
    proof (cases service)
      case (ConversionService x y)
      with \<open>rating = Some rv\<close> g Some show ?thesis by (simp add: advanced_processing_def)
    next
      case (UserPreferencesService adapt)
      with \<open>rating = Some rv\<close> g Some show ?thesis
        by (cases "adapt (dict_get p ''userId'' (PyStr (u ''unknown''))) ft rv sv")
           (auto simp: advanced_processing_def)
    qed
  qed
qed

lemma basic_processing_runs:
  assumes "get_service self1 env ''conversion_service''
             = (Some (ConversionService convert feedback), self2)"
      and "feedback ft p = Inr (PyDict d)"
  shows "basic_processing self1 env ft p =
           (Inr (AList.update ''processing_method'' (PyStr (u ''conversion_service'')) d),
            self2\<lparr>calls := calls self2 @ [ProcessUserFeedback ft p]\<rparr>)"
  using assms by (simp add: basic_processing_def)

text \<open>
  Claim C8, as amended. With a rating, the preference service at hand and
  \<open>adapt_user_style\<close> reporting success, \<open>process_user_feedback\<close> returns at once with
  \<open>processing_method\<close> \<open>user_preferences_service\<close>, and the only call made is
  \<open>adapt_user_style\<close>. When the advanced attempt falls through and the conversion
  service is at hand and returns a dictionary, the result is that dictionary with
  \<open>processing_method\<close> \<open>conversion_service\<close>. The attempt falls through exactly when there
  is no rating, or the preference service cannot be had, or \<open>adapt_user_style\<close> reports
  no success.
\<close>

theorem C8_feedback_routing:
  fixes p :: dict
  defines "user_id \<equiv> dict_get p ''userId'' (PyStr (u ''unknown''))"
  shows
    "(rating = Some rv
        \<and> get_service self env ''user_preferences_service''
             = (Some (UserPreferencesService adapt), self1)
        \<and> adapt user_id ft rv sv = Inr True
      \<longrightarrow> process_user_feedback self env ft p rating sv =
            (Inr [(''success'', PyBool True),
                  (''updated_profile'', PyDict p),
                  (''style_adjustments'', PyDict [(''advanced_learning'', PyBool True)]),
                  (''feedback_processed'', PyStr ft),
                  (''processing_method'', PyStr (u ''user_preferences_service''))],
             self1\<lparr>calls := calls self @ [AdaptUserStyle user_id ft rv sv]\<rparr>))
   \<and> (advanced_processing self env ft p rating sv = (Inr None, self2)
        \<and> get_service self2 env ''conversion_service''
             = (Some (ConversionService convert feedback), self3)
        \<and> feedback ft p = Inr (PyDict d)
      \<longrightarrow> process_user_feedback self env ft p rating sv =
            (Inr (AList.update ''processing_method'' (PyStr (u ''conversion_service'')) d),
             self3\<lparr>calls := calls self2 @ [ProcessUserFeedback ft p]\<rparr>))
   \<and> ((\<exists>self2. advanced_processing self env ft p rating sv = (Inr None, self2)) \<longleftrightarrow>
         (rating = None
          \<or> (\<exists>rv. rating = Some rv
                 \<and> (fst (get_service self env ''user_preferences_service'') = None
                      \<or> (\<exists>adapt. fst (get_service self env ''user_preferences_service'')
                                     = Some (UserPreferencesService adapt)
                             \<and> adapt user_id ft rv sv = Inr False)))))"
proof (intro conjI impI)
  assume h: "rating = Some rv
        \<and> get_service self env ''user_preferences_service''
             = (Some (UserPreferencesService adapt), self1)
        \<and> adapt user_id ft rv sv = Inr True"
  then have g: "get_service self env ''user_preferences_service''
             = (Some (UserPreferencesService adapt), self1)" by simp
  from h have "advanced_processing self env ft p rating sv =
           (Inr (Some [(''success'', PyBool True),
                       (''updated_profile'', PyDict p),
                       (''style_adjustments'', PyDict [(''advanced_learning'', PyBool True)]),
                       (''feedback_processed'', PyStr ft),
                       (''processing_method'', PyStr (u ''user_preferences_service''))]),
            self1\<lparr>calls := calls self1 @ [AdaptUserStyle user_id ft rv sv]\<rparr>)"
    using advanced_processing_success[of rating rv self env adapt self1 p ft sv]
    unfolding user_id_def by simp
  then show "process_user_feedback self env ft p rating sv =
            (Inr [(''success'', PyBool True),
                  (''updated_profile'', PyDict p),
                  (''style_adjustments'', PyDict [(''advanced_learning'', PyBool True)]),
                  (''feedback_processed'', PyStr ft),
                  (''processing_method'', PyStr (u ''user_preferences_service''))],
             self1\<lparr>calls := calls self @ [AdaptUserStyle user_id ft rv sv]\<rparr>)"
    using get_service_frame[OF g]
    by (simp add: process_user_feedback_eq process_user_feedback_body_def)
next
  assume h: "advanced_processing self env ft p rating sv = (Inr None, self2)
        \<and> get_service self2 env ''conversion_service''
             = (Some (ConversionService convert feedback), self3)
        \<and> feedback ft p = Inr (PyDict d)"
  then have g: "get_service self2 env ''conversion_service''
             = (Some (ConversionService convert feedback), self3)"
    and f: "feedback ft p = Inr (PyDict d)" by simp_all
  from h basic_processing_runs[OF g f] get_service_frame[OF g]
  show "process_user_feedback self env ft p rating sv =
            (Inr (AList.update ''processing_method'' (PyStr (u ''conversion_service'')) d),
             self3\<lparr>calls := calls self2 @ [ProcessUserFeedback ft p]\<rparr>)"
    by (simp add: process_user_feedback_eq process_user_feedback_body_def)
next
  show "(\<exists>self2. advanced_processing self env ft p rating sv = (Inr None, self2)) \<longleftrightarrow>
         (rating = None
          \<or> (\<exists>rv. rating = Some rv
                 \<and> (fst (get_service self env ''user_preferences_service'') = None
                      \<or> (\<exists>adapt. fst (get_service self env ''user_preferences_service'')
                                     = Some (UserPreferencesService adapt)
                             \<and> adapt user_id ft rv sv = Inr False))))"
    unfolding user_id_def by (rule advanced_processing_falls_through)
qed

text \<open>A rated feedback with a preference service reporting success, and an unrated
  feedback with the conversion service.\<close>

theorem C8_feedback_routing_witness:
  "get_service (example_rag [(''user_preferences_service'', UserPreferencesService (adapt_reports True))])
      (example_modules empty_store) ''user_preferences_service''
     = (Some (UserPreferencesService (adapt_reports True)),
        example_rag [(''user_preferences_service'', UserPreferencesService (adapt_reports True))])
   \<and> adapt_reports True (dict_get [(''userId'', PyStr (u ''u1''))] ''userId'' (PyStr (u ''unknown'')))
        (u ''too stiff'') 5 (u ''direct'') = Inr True
   \<and> fst (process_user_feedback
            (example_rag [(''user_preferences_service'', UserPreferencesService (adapt_reports True))])
            (example_modules empty_store) (u ''too stiff'') [(''userId'', PyStr (u ''u1''))] (Some 5)
            (u ''direct''))
       = Inr [(''success'', PyBool True),
              (''updated_profile'', PyDict [(''userId'', PyStr (u ''u1''))]),
              (''style_adjustments'', PyDict [(''advanced_learning'', PyBool True)]),
              (''feedback_processed'', PyStr (u ''too stiff'')),
              (''processing_method'', PyStr (u ''user_preferences_service''))]
   \<and> advanced_processing
         (example_rag [(''conversion_service'', ConversionService styled_answer basic_feedback)])
         (example_modules empty_store) (u ''too stiff'') [(''userId'', PyStr (u ''u1''))] None
         (u ''direct'')
       = (Inr None, example_rag [(''conversion_service'', ConversionService styled_answer basic_feedback)])
   \<and> get_service (example_rag [(''conversion_service'', ConversionService styled_answer basic_feedback)])
         (example_modules empty_store) ''conversion_service''
       = (Some (ConversionService styled_answer basic_feedback),
          example_rag [(''conversion_service'', ConversionService styled_answer basic_feedback)])
   \<and> basic_feedback (u ''too stiff'') [(''userId'', PyStr (u ''u1''))]
       = Inr (PyDict [(''success'', PyBool True),
                      (''updated_profile'', PyDict [(''userId'', PyStr (u ''u1''))])])
   \<and> fst (process_user_feedback
            (example_rag [(''conversion_service'', ConversionService styled_answer basic_feedback)])
            (example_modules empty_store) (u ''too stiff'') [(''userId'', PyStr (u ''u1''))] None
            (u ''direct''))
       = Inr [(''success'', PyBool True),
              (''updated_profile'', PyDict [(''userId'', PyStr (u ''u1''))]),
              (''processing_method'', PyStr (u ''conversion_service''))]"
proof -
  let ?adv = "example_rag [(''user_preferences_service'', UserPreferencesService (adapt_reports True))]"
  let ?bas = "example_rag [(''conversion_service'', ConversionService styled_answer basic_feedback)]"
  let ?env = "example_modules empty_store"
  let ?p = "[(''userId'', PyStr (u ''u1''))]"
  have g1: "get_service ?adv ?env ''user_preferences_service''
     = (Some (UserPreferencesService (adapt_reports True)), ?adv)"
    by (rule get_service_cached) (simp add: example_rag_def)
  have a1: "adapt_reports True (dict_get ?p ''userId'' (PyStr (u ''unknown'')))
        (u ''too stiff'') 5 (u ''direct'') = Inr True"
    by (simp add: adapt_reports_def)
  have a2: "advanced_processing ?bas ?env (u ''too stiff'') ?p None (u ''direct'') = (Inr None, ?bas)"
    by (simp add: advanced_processing_def)
  have g2: "get_service ?bas ?env ''conversion_service''
       = (Some (ConversionService styled_answer basic_feedback), ?bas)"
    by (rule get_service_cached) (simp add: example_rag_def)
  have f2: "basic_feedback (u ''too stiff'') ?p
       = Inr (PyDict [(''success'', PyBool True), (''updated_profile'', PyDict ?p)])"
    by (simp add: basic_feedback_def)
  have r1: "fst (process_user_feedback ?adv ?env (u ''too stiff'') ?p (Some 5) (u ''direct''))
       = Inr [(''success'', PyBool True),
              (''updated_profile'', PyDict ?p),
              (''style_adjustments'', PyDict [(''advanced_learning'', PyBool True)]),
              (''feedback_processed'', PyStr (u ''too stiff'')),
              (''processing_method'', PyStr (u ''user_preferences_service''))]"
    using C8_feedback_routing[of "Some 5" 5 ?adv ?env "adapt_reports True" ?adv ?p "u ''too stiff''"
        "u ''direct''"] g1 a1
    by simp
  have r2: "fst (process_user_feedback ?bas ?env (u ''too stiff'') ?p None (u ''direct''))
       = Inr [(''success'', PyBool True),
              (''updated_profile'', PyDict ?p),
              (''processing_method'', PyStr (u ''conversion_service''))]"
    using C8_feedback_routing[of None _ ?bas ?env _ _ ?p "u ''too stiff''" "u ''direct''" ?bas
        styled_answer basic_feedback ?bas
        "[(''success'', PyBool True), (''updated_profile'', PyDict ?p)]"] a2 g2 f2
    by simp
  from g1 a1 r1 a2 g2 f2 r2 show ?thesis by blast
qed

text \<open>
  Claim C8 as written fails: the tag of the advanced path is \<open>user_preferences_service\<close>,
  not \<open>advanced\<close>, and the tag of the basic path is \<open>conversion_service\<close>, not \<open>basic\<close>.
\<close>

theorem C8_processing_method_tags_counterexample:
  "fst (process_user_feedback
          (example_rag [(''user_preferences_service'', UserPreferencesService (adapt_reports True))])
          (example_modules empty_store) (u ''too stiff'') [(''userId'', PyStr (u ''u1''))] (Some 5)
          (u ''direct''))
     = Inr [(''success'', PyBool True),
            (''updated_profile'', PyDict [(''userId'', PyStr (u ''u1''))]),
            (''style_adjustments'', PyDict [(''advanced_learning'', PyBool True)]),
            (''feedback_processed'', PyStr (u ''too stiff'')),
            (''processing_method'', PyStr (u ''user_preferences_service''))]
   \<and> u ''user_preferences_service'' \<noteq> u ''advanced''
   \<and> fst (process_user_feedback
            (example_rag [(''conversion_service'', ConversionService styled_answer basic_feedback)])
            (example_modules empty_store) (u ''too stiff'') [(''userId'', PyStr (u ''u1''))] None
            (u ''direct''))
       = Inr [(''success'', PyBool True),
              (''updated_profile'', PyDict [(''userId'', PyStr (u ''u1''))]),
              (''processing_method'', PyStr (u ''conversion_service''))]
   \<and> u ''conversion_service'' \<noteq> u ''basic''"
  by (simp add: process_user_feedback_def process_user_feedback_body_def advanced_processing_def
      basic_processing_def get_service_def example_rag_def example_modules_def adapt_reports_def
      basic_feedback_def dict_get_def u_def)

text \<open>
  Claim C9. \<open>process_user_feedback\<close> always returns a dictionary and never raises. When
  there is no rating or the preference service cannot be had, and the conversion
  service cannot be had, it returns \<open>success\<close> false with \<open>processing_method\<close> \<open>none\<close> and
  the profile it was given, the object unchanged. Whatever exception the block raises,
  it returns \<open>success\<close> false with the message of the exception as \<open>error\<close> and the
  profile it was given.
\<close>

theorem C9_feedback_never_raises:
  "(\<exists>r self1. process_user_feedback self env ft p rating sv = (Inr r, self1))
   \<and> ((rating = None \<or> fst (get_service self env ''user_preferences_service'') = None)
        \<and> fst (get_service self env ''conversion_service'') = None
      \<longrightarrow> process_user_feedback self env ft p rating sv =
            (Inr [(''success'', PyBool False),
                  (''error'', PyStr (u ''Feedback processing service is not initialized.'')),
                  (''updated_profile'', PyDict p),
                  (''processing_method'', PyStr (u ''none''))],
             self))
   \<and> (\<forall>e self1. process_user_feedback_body self env ft p rating sv = (Inl e, self1)
      \<longrightarrow> process_user_feedback self env ft p rating sv =
            (Inr [(''success'', PyBool False),
                  (''error'', PyStr (str_exn e)),
                  (''updated_profile'', PyDict p),
                  (''processing_method'', PyStr (u ''error''))],
             self1))"
proof (intro conjI impI allI)
  obtain out s where b: "process_user_feedback_body self env ft p rating sv = (out, s)"
    by (cases "process_user_feedback_body self env ft p rating sv")
  then show "\<exists>r self1. process_user_feedback self env ft p rating sv = (Inr r, self1)"
    by (cases out) (simp_all add: process_user_feedback_eq)
next
  assume h: "(rating = None \<or> fst (get_service self env ''user_preferences_service'') = None)
        \<and> fst (get_service self env ''conversion_service'') = None"
  obtain s where c: "get_service self env ''conversion_service'' = (None, s)"
    using h by (cases "get_service self env ''conversion_service''") simp
  from get_service_None[OF c] c have c': "get_service self env ''conversion_service'' = (None, self)"
    by simp
  have a: "advanced_processing self env ft p rating sv = (Inr None, self)"
  proof (cases rating)
    case None
    then show ?thesis by (simp add: advanced_processing_def)
  next
    case (Some rv)
    with h obtain s' where g: "get_service self env ''user_preferences_service'' = (None, s')"
      by (cases "get_service self env ''user_preferences_service''") simp
    from get_service_None[OF g] g Some show ?thesis
      by (simp add: advanced_processing_def)
  qed
  show "process_user_feedback self env ft p rating sv =
            (Inr [(''success'', PyBool False),
                  (''error'', PyStr (u ''Feedback processing service is not initialized.'')),
                  (''updated_profile'', PyDict p),
                  (''processing_method'', PyStr (u ''none''))],
             self)"
    using a c'
    by (simp add: process_user_feedback_eq process_user_feedback_body_def basic_processing_def)
next
  fix e self1
  assume "process_user_feedback_body self env ft p rating sv = (Inl e, self1)"
  then show "process_user_feedback self env ft p rating sv =
            (Inr [(''success'', PyBool False),
                  (''error'', PyStr (str_exn e)),
                  (''updated_profile'', PyDict p),
                  (''processing_method'', PyStr (u ''error''))],
             self1)"
    by (simp add: process_user_feedback_eq feedback_error_def)
qed

text \<open>A chain with no service, and a chain whose preference service raises.\<close>

theorem C9_feedback_never_raises_witness:
  "fst (get_service (example_rag []) (example_modules empty_store) ''user_preferences_service'') = None
   \<and> fst (get_service (example_rag []) (example_modules empty_store) ''conversion_service'') = None
   \<and> process_user_feedback (example_rag []) (example_modules empty_store) (u ''too stiff'')
        [(''userId'', PyStr (u ''u1''))] (Some 2) (u ''gentle'')
       = (Inr [(''success'', PyBool False),
               (''error'', PyStr (u ''Feedback processing service is not initialized.'')),
               (''updated_profile'', PyDict [(''userId'', PyStr (u ''u1''))]),
               (''processing_method'', PyStr (u ''none''))],
          example_rag [])
   \<and> process_user_feedback_body
         (example_rag [(''user_preferences_service'', UserPreferencesService adapt_raises)])
         (example_modules empty_store) (u ''too stiff'') [(''userId'', PyStr (u ''u1''))] (Some 2)
         (u ''gentle'')
       = (Inl (Exception (u ''database is locked'')),
          (example_rag [(''user_preferences_service'', UserPreferencesService adapt_raises)])
            \<lparr>calls := [AdaptUserStyle (PyStr (u ''u1'')) (u ''too stiff'') 2 (u ''gentle'')]\<rparr>)
   \<and> fst (process_user_feedback
            (example_rag [(''user_preferences_service'', UserPreferencesService adapt_raises)])
            (example_modules empty_store) (u ''too stiff'') [(''userId'', PyStr (u ''u1''))] (Some 2)
            (u ''gentle''))
       = Inr [(''success'', PyBool False),
              (''error'', PyStr (u ''database is locked'')),
              (''updated_profile'', PyDict [(''userId'', PyStr (u ''u1''))]),
              (''processing_method'', PyStr (u ''error''))]"
proof -
  let ?env = "example_modules empty_store"
  let ?p = "[(''userId'', PyStr (u ''u1''))]"
  let ?raising = "example_rag [(''user_preferences_service'', UserPreferencesService adapt_raises)]"
  have g1: "fst (get_service (example_rag []) ?env ''user_preferences_service'') = None"
    by (simp add: get_service_def example_rag_def)
  have g2: "fst (get_service (example_rag []) ?env ''conversion_service'') = None"
    by (simp add: get_service_def example_rag_def)
  have b: "process_user_feedback_body ?raising ?env (u ''too stiff'') ?p (Some 2) (u ''gentle'')
       = (Inl (Exception (u ''database is locked'')),
          ?raising\<lparr>calls := [AdaptUserStyle (PyStr (u ''u1'')) (u ''too stiff'') 2 (u ''gentle'')]\<rparr>)"
    by (simp add: process_user_feedback_body_def advanced_processing_def get_service_def
        example_rag_def adapt_raises_def dict_get_def)
  note t1 = C9_feedback_never_raises[of "example_rag []" ?env "u ''too stiff''" ?p "Some 2" "u ''gentle''"]
  note t2 = C9_feedback_never_raises[of ?raising ?env "u ''too stiff''" ?p "Some 2" "u ''gentle''"]
  have r1: "process_user_feedback (example_rag []) ?env (u ''too stiff'') ?p (Some 2) (u ''gentle'')
       = (Inr [(''success'', PyBool False),
               (''error'', PyStr (u ''Feedback processing service is not initialized.'')),
               (''updated_profile'', PyDict ?p),
               (''processing_method'', PyStr (u ''none''))],
          example_rag [])"
    using t1 g1 g2 by blast
  have r2: "fst (process_user_feedback ?raising ?env (u ''too stiff'') ?p (Some 2) (u ''gentle''))
       = Inr [(''success'', PyBool False),
              (''error'', PyStr (u ''database is locked'')),
              (''updated_profile'', PyDict ?p),
              (''processing_method'', PyStr (u ''error''))]"
  proof -
    from t2 b have "process_user_feedback ?raising ?env (u ''too stiff'') ?p (Some 2) (u ''gentle'')
       = (Inr [(''success'', PyBool False),
               (''error'', PyStr (str_exn (Exception (u ''database is locked'')))),
               (''updated_profile'', PyDict ?p),
               (''processing_method'', PyStr (u ''error''))],
          ?raising\<lparr>calls := [AdaptUserStyle (PyStr (u ''u1'')) (u ''too stiff'') 2 (u ''gentle'')]\<rparr>)"
      by blast
    then show ?thesis by simp
  qed
  from g1 g2 r1 b r2 show ?thesis by blast
qed

lemma advanced_processing_Some:
  assumes "advanced_processing self env ft p rating sv = (Inr (Some d), self1)"
  shows "d = [(''success'', PyBool True),
              (''updated_profile'', PyDict p),
              (''style_adjustments'', PyDict [(''advanced_learning'', PyBool True)]),
              (''feedback_processed'', PyStr ft),
              (''processing_method'', PyStr (u ''user_preferences_service''))]"
  using assms
  by (auto simp: advanced_processing_def Let_def try_bind_def
      split: option.splits prod.splits sum.splits if_splits)

lemma basic_processing_Inr:
  assumes "basic_processing self env ft p = (Inr r, self1)"
  shows "r = [(''success'', PyBool False),
              (''error'', PyStr (u ''Feedback processing service is not initialized.'')),
              (''updated_profile'', PyDict p),
              (''processing_method'', PyStr (u ''none''))]
       \<or> (\<exists>d. r = AList.update ''processing_method'' (PyStr (u ''conversion_service'')) d)"
  using assms
  by (auto simp: basic_processing_def Let_def try_bind_def
      split: option.splits prod.splits sum.splits pyval.splits)

lemma process_user_feedback_body_Inr:
  assumes "process_user_feedback_body self env ft p rating sv = (Inr r, self1)"
  shows "r = [(''success'', PyBool True),
              (''updated_profile'', PyDict p),
              (''style_adjustments'', PyDict [(''advanced_learning'', PyBool True)]),
              (''feedback_processed'', PyStr ft),
              (''processing_method'', PyStr (u ''user_preferences_service''))]
       \<or> r = [(''success'', PyBool False),
               (''error'', PyStr (u ''Feedback processing service is not initialized.'')),
               (''updated_profile'', PyDict p),
               (''processing_method'', PyStr (u ''none''))]
       \<or> (\<exists>d. r = AList.update ''processing_method'' (PyStr (u ''conversion_service'')) d)"
proof -
  obtain a s1 where a: "advanced_processing self env ft p rating sv = (a, s1)"
    by (cases "advanced_processing self env ft p rating sv")
  show ?thesis
  proof (cases a)
    case (Inl e)
    with a assms show ?thesis by (simp add: process_user_feedback_body_def)
  next
    case (Inr ao)
    show ?thesis
    proof (cases ao)
      case (Some d)
      with a Inr assms have "d = r" by (simp add: process_user_feedback_body_def)
      with advanced_processing_Some[of self env ft p rating sv d s1] a Inr Some
      show ?thesis by simp
    next
      case None
      with a Inr assms have "basic_processing s1 env ft p = (Inr r, self1)"
        by (simp add: process_user_feedback_body_def)
      from basic_processing_Inr[OF this] show ?thesis by blast
    qed
  qed
qed

text \<open>
  Claim C10. A result of \<open>process_user_feedback\<close> is one of four dictionaries: the one
  of the advanced path, the one for no service, the one of the \<open>except\<close> branch, or the
  dictionary the conversion service returned, tagged \<open>conversion_service\<close>. In the three
  that \<open>process_user_feedback\<close> builds itself, \<open>updated_profile\<close> is the profile it was
  given, and the one of the advanced path carries no other trace of an adjustment than
  the fixed \<open>style_adjustments\<close> entry.
\<close>

theorem C10_router_built_outcomes_keep_profile:
  assumes "process_user_feedback self env ft p rating sv = (Inr r, self1)"
  shows "(r = [(''success'', PyBool True),
               (''updated_profile'', PyDict p),
               (''style_adjustments'', PyDict [(''advanced_learning'', PyBool True)]),
               (''feedback_processed'', PyStr ft),
               (''processing_method'', PyStr (u ''user_preferences_service''))]
          \<or> r = [(''success'', PyBool False),
                  (''error'', PyStr (u ''Feedback processing service is not initialized.'')),
                  (''updated_profile'', PyDict p),
                  (''processing_method'', PyStr (u ''none''))]
          \<or> (\<exists>e. r = [(''success'', PyBool False),
                       (''error'', PyStr (str_exn e)),
                       (''updated_profile'', PyDict p),
                       (''processing_method'', PyStr (u ''error''))])
          \<or> (\<exists>d. r = AList.update ''processing_method'' (PyStr (u ''conversion_service'')) d))
       \<and> (map_of r ''processing_method'' \<noteq> Some (PyStr (u ''conversion_service''))
            \<longrightarrow> map_of r ''updated_profile'' = Some (PyDict p))"
proof -
  obtain out s where b: "process_user_feedback_body self env ft p rating sv = (out, s)"
    by (cases "process_user_feedback_body self env ft p rating sv")
  have forms: "r = [(''success'', PyBool True),
               (''updated_profile'', PyDict p),
               (''style_adjustments'', PyDict [(''advanced_learning'', PyBool True)]),
               (''feedback_processed'', PyStr ft),
               (''processing_method'', PyStr (u ''user_preferences_service''))]
          \<or> r = [(''success'', PyBool False),
                  (''error'', PyStr (u ''Feedback processing service is not initialized.'')),
                  (''updated_profile'', PyDict p),
                  (''processing_method'', PyStr (u ''none''))]
          \<or> (\<exists>e. r = [(''success'', PyBool False),
                       (''error'', PyStr (str_exn e)),
                       (''updated_profile'', PyDict p),
                       (''processing_method'', PyStr (u ''error''))])
          \<or> (\<exists>d. r = AList.update ''processing_method'' (PyStr (u ''conversion_service'')) d)"
  proof (cases out)
    case (Inl e)
    with assms b have "r = feedback_error e p" by (simp add: process_user_feedback_eq)
    then show ?thesis unfolding feedback_error_def by blast
  next
    case (Inr r')
    with assms b have "r' = r" by (simp add: process_user_feedback_eq)
    with b Inr have "process_user_feedback_body self env ft p rating sv = (Inr r, s)" by simp
    from process_user_feedback_body_Inr[OF this] show ?thesis by blast
  qed
  have "map_of r ''updated_profile'' = Some (PyDict p)"
    if "map_of r ''processing_method'' \<noteq> Some (PyStr (u ''conversion_service''))"
  proof -
    from that have "\<not> (\<exists>d. r = AList.update ''processing_method'' (PyStr (u ''conversion_service'')) d)"
      by (auto simp: update_conv')
    with forms show ?thesis by auto
  qed
  with forms show ?thesis by blast
qed

text \<open>A rated feedback on a chain with no service.\<close>

theorem C10_router_built_outcomes_keep_profile_witness:
  "process_user_feedback (example_rag []) (example_modules empty_store) (u ''too stiff'')
        [(''userId'', PyStr (u ''u1''))] (Some 2) (u ''gentle'')
       = (Inr [(''success'', PyBool False),
               (''error'', PyStr (u ''Feedback processing service is not initialized.'')),
               (''updated_profile'', PyDict [(''userId'', PyStr (u ''u1''))]),
               (''processing_method'', PyStr (u ''none''))],
          example_rag [])
   \<and> map_of [(''success'', PyBool False),
              (''error'', PyStr (u ''Feedback processing service is not initialized.'')),
              (''updated_profile'', PyDict [(''userId'', PyStr (u ''u1''))]),
              (''processing_method'', PyStr (u ''none''))] ''processing_method''
       \<noteq> Some (PyStr (u ''conversion_service''))
   \<and> map_of [(''success'', PyBool False),
              (''error'', PyStr (u ''Feedback processing service is not initialized.'')),
              (''updated_profile'', PyDict [(''userId'', PyStr (u ''u1''))]),
              (''processing_method'', PyStr (u ''none''))] ''updated_profile''
       = Some (PyDict [(''userId'', PyStr (u ''u1''))])"
proof -
  have run: "process_user_feedback (example_rag []) (example_modules empty_store) (u ''too stiff'')
        [(''userId'', PyStr (u ''u1''))] (Some 2) (u ''gentle'')
       = (Inr [(''success'', PyBool False),
               (''error'', PyStr (u ''Feedback processing service is not initialized.'')),
               (''updated_profile'', PyDict [(''userId'', PyStr (u ''u1''))]),
               (''processing_method'', PyStr (u ''none''))],
          example_rag [])"
    by (simp add: process_user_feedback_def process_user_feedback_body_def advanced_processing_def
        basic_processing_def get_service_def example_rag_def)
  have ne: "u ''none'' \<noteq> u ''conversion_service''" by (simp add: u_def)
  from C10_router_built_outcomes_keep_profile[OF run] run ne show ?thesis by simp
qed

end
